theory Spec2Isabelle
  imports Main "HOL-Library.Word" "HOL-Library.Multiset"
begin

unbundle bit_operations_syntax

section \<open>The cluster module of guble (server/cluster/cluster.go)\<close>

text \<open>
  The module keeps one node's view of a guble cluster on top of the memberlist library.
  Every method of \<open>Cluster\<close> is modelled as a function that takes the cluster value and
  returns its result, the cluster value after the call, and the list of the effects the call
  had on the outside (log lines, calls into memberlist, goroutines started, calls of the
  message handler), in program order.

  Go's \<open>int\<close> is taken as a 64-bit two's complement integer; comparisons read it with
  \<open>sint\<close>. A \<open>string\<close> is its sequence of bytes.
\<close>

subsection \<open>Data\<close>

type_synonym byte = "8 word"
type_synonym go_int = "64 word"

text \<open>
  An \<open>error\<close> value is either made by \<open>errors.New\<close> in this module, or handed over by
  memberlist, the codec or the protocol parser.
\<close>

datatype error = errors_New string | external_error string

text \<open>A call returns, or it panics with a message.\<close>

datatype 'a outcome = Return 'a | Panic string

datatype level = DebugLevel | ErrorLevel | PanicLevel

text \<open>\<open>net.TCPAddr\<close>; \<open>IP\<close> holds the text that \<open>IP.String()\<close> gives.\<close>

record TCPAddr =
  IP :: string
  Port_tcp :: go_int

record Config =
  ID :: go_int
  Host :: string
  Port :: go_int
  Remotes :: "TCPAddr list"
  HealthScoreThreshold :: go_int

text \<open>\<open>memberlist.Node\<close>, the fields this module can see.\<close>

record Node =
  Name :: string
  Addr :: "byte list"
  Port_node :: "16 word"


text \<open>
  The memberlist instance is not code of this module. A value of \<open>Memberlist\<close> holds what
  the instance answers at the moment of a call: its member list, its health score, and the
  results of joining, of sending to a node and of shutting down.
\<close>

record Memberlist =
  Members :: "Node list"
  GetHealthScore :: go_int
  Join :: "string list \<Rightarrow> go_int \<times> error option"
  SendToTCP :: "Node \<Rightarrow> byte list \<Rightarrow> error option"
  Shutdown :: "error option"

text \<open>
  Modelled from the spec: the declarations of \<open>message\<close> and \<open>messageType\<close> are not in the
  sources at hand (cluster.go only uses them). The spec gives the envelope three fields, the
  sender's node id, a kind that is \<open>stringMessage\<close> or the application message kind
  (\<open>gubleMessage\<close> in cluster.go), and a body of bytes.
\<close>

datatype messageType = gubleMessage | stringMessage

record message =
  NodeID :: go_int
  Type :: messageType
  Body :: "byte list"

text \<open>
  What a call does to the outside: a log line, a call of \<open>memberlist.Join\<close>, a goroutine
  started with \<open>go cluster.sendToNode(node, bytes)\<close>, a call of \<open>memberlist.SendToTCP\<close>,
  a call of the handler's \<open>HandleMessage\<close>, a call of \<open>memberlist.Shutdown\<close>.
\<close>

datatype 'pm effect =
    Logged level string
  | Joined "string list"
  | Spawned Node "byte list"
  | Sent Node "byte list"
  | Handled 'pm
  | ShutDown

text \<open>
  \<open>'pm\<close> stands for \<open>protocol.Message\<close>. The \<open>MessageHandler\<close> interface has one
  method, \<open>HandleMessage\<close>; a nil interface value is \<open>None\<close>. \<open>Config\<close> and
  \<open>memberlist\<close> are pointers that \<open>New\<close> sets before it returns the cluster, so they are
  taken as present.
\<close>

record 'pm Cluster =
  Config :: Config
  MessageHandler :: "('pm \<Rightarrow> error option outcome) option"
  name :: string
  memberlist :: Memberlist
  broadcasts :: "byte list list"
  numJoins :: go_int
  numLeaves :: go_int
  numUpdates :: go_int

subsection \<open>Decimal text of an integer\<close>

text \<open>\<open>strconv.Itoa\<close> and \<open>fmt.Sprintf("%d", _)\<close> of the Go library.\<close>

definition digit_char :: "nat \<Rightarrow> char" where
  "digit_char d = char_of (48 + d)"

function digits :: "nat \<Rightarrow> string" where
  "digits n = (if n < 10 then [digit_char n] else digits (n div 10) @ [digit_char (n mod 10)])"
  by pat_completeness auto
termination
  by (relation "measure (\<lambda>n. n)") auto

definition Itoa :: "int \<Rightarrow> string" where
  "Itoa i = (if i < 0 then CHR ''-'' # digits (nat (- i)) else digits (nat i))"


definition bytes_of_string :: "string \<Rightarrow> byte list" where
  "bytes_of_string s = map of_char s"

subsection \<open>Construction and life cycle\<close>

definition nil_dereference :: string where
  "nil_dereference = ''invalid memory address or nil pointer dereference''"


text \<open>\<open>remotesAsStrings\<close>: each remote as \<open>IP:port\<close>.\<close>

definition remotesAsStrings :: "'pm Cluster \<Rightarrow> string list" where
  "remotesAsStrings cluster =
     map (\<lambda>remote. IP remote @ '':'' @ Itoa (sint (Port_tcp remote))) (Remotes (Config cluster))"

definition missing_handler :: string where
  "missing_handler = ''There should be a valid MessageHandler already set-up''"

definition no_remote_contacted :: string where
  "no_remote_contacted =
     ''No remote hosts were successfuly contacted when this node wanted to join the cluster''"

text \<open>
  \<open>Start\<close>: the handler is tested first; \<open>memberlist.Join\<close> is called only after that test,
  and its two results are tested in turn.
\<close>

definition Start :: "'pm Cluster \<Rightarrow> error option \<times> 'pm Cluster \<times> 'pm effect list" where
  "Start cluster =
     (let fx0 = [Logged DebugLevel ''Starting Cluster''] in
      if MessageHandler cluster = None then
        (Some (errors_New missing_handler), cluster, fx0 @ [Logged ErrorLevel missing_handler])
      else
        (case Join (memberlist cluster) (remotesAsStrings cluster) of
           (num, err) \<Rightarrow>
             (let fx1 = fx0 @ [Joined (remotesAsStrings cluster)] in
              case err of
                Some e \<Rightarrow>
                  (Some e, cluster,
                   fx1 @ [Logged ErrorLevel ''Error when this node wanted to join the cluster''])
              | None \<Rightarrow>
                  if num = 0 then
                    (Some (errors_New no_remote_contacted), cluster,
                     fx1 @ [Logged ErrorLevel no_remote_contacted])
                  else (None, cluster, fx1 @ [Logged DebugLevel ''Started Cluster'']))))"

definition Stop :: "'pm Cluster \<Rightarrow> error option \<times> 'pm Cluster \<times> 'pm effect list" where
  "Stop cluster = (Shutdown (memberlist cluster), cluster, [ShutDown])"

definition health_not_perfect :: string where
  "health_not_perfect = ''Cluster Health Score is not perfect''"

text \<open>\<open>Check\<close>: \<open>healthScore > cluster.Config.HealthScoreThreshold\<close> compares signed integers.\<close>

definition Check :: "'pm Cluster \<Rightarrow> error option \<times> 'pm Cluster \<times> 'pm effect list" where
  "Check cluster =
     (let healthScore = GetHealthScore (memberlist cluster) in
      if sint healthScore > sint (HealthScoreThreshold (Config cluster)) then
        (Some (errors_New health_not_perfect), cluster, [Logged ErrorLevel health_not_perfect])
      else (None, cluster, []))"

subsection \<open>Broadcast\<close>

text \<open>
  \<open>sendToNode\<close> runs in a goroutine of its own: one \<open>SendToTCP\<close>, and a log line when it
  fails.
\<close>

definition sendToNode :: "'pm Cluster \<Rightarrow> Node \<Rightarrow> byte list \<Rightarrow> 'pm effect list" where
  "sendToNode cluster node msgBytes =
     [Logged DebugLevel ''Sending cluster-message to a node'', Sent node msgBytes] @
     (case SendToTCP (memberlist cluster) node msgBytes of
        Some err \<Rightarrow> [Logged ErrorLevel ''Error sending cluster-message to a node'']
      | None \<Rightarrow> [])"

text \<open>
  The loop of \<open>broadcastClusterMessage\<close> over \<open>Members()\<close>: a node with the cluster's own
  name is skipped, for every other node a goroutine is started.
\<close>

fun broadcast_loop :: "string \<Rightarrow> Node list \<Rightarrow> byte list \<Rightarrow> 'pm effect list" where
  "broadcast_loop nm [] cMessageBytes = []"
| "broadcast_loop nm (node # nodes) cMessageBytes =
     (if nm = Name node then broadcast_loop nm nodes cMessageBytes
      else Spawned node cMessageBytes # broadcast_loop nm nodes cMessageBytes)"

definition nil_cluster_message :: string where
  "nil_cluster_message = ''Could not broadcast a nil cluster-message''"

text \<open>
  \<open>broadcastClusterMessage\<close>; \<open>encode\<close> is the method of \<open>message\<close>, which is not in the
  sources at hand, so it is a parameter. The message is a pointer, \<open>None\<close> is nil.
\<close>

definition broadcastClusterMessage ::
  "(message \<Rightarrow> error + byte list) \<Rightarrow> 'pm Cluster \<Rightarrow> message option
     \<Rightarrow> error option \<times> 'pm Cluster \<times> 'pm effect list" where
  "broadcastClusterMessage encode cluster cMessage =
     (case cMessage of
        None \<Rightarrow>
          (Some (errors_New nil_cluster_message), cluster, [Logged ErrorLevel nil_cluster_message])
      | Some m \<Rightarrow>
          (case encode m of
             Inl err \<Rightarrow>
               (Some err, cluster,
                [Logged ErrorLevel ''Could not encode and broadcast cluster-message''])
           | Inr cMessageBytes \<Rightarrow>
               (None, cluster,
                broadcast_loop (name cluster) (Members (memberlist cluster)) cMessageBytes)))"

text \<open>\<open>BroadcastString\<close>; the argument is a \<open>*string\<close>, and \<open>*sMessage\<close> panics on nil.\<close>

definition BroadcastString ::
  "(message \<Rightarrow> error + byte list) \<Rightarrow> 'pm Cluster \<Rightarrow> string option
     \<Rightarrow> error option outcome \<times> 'pm Cluster \<times> 'pm effect list" where
  "BroadcastString encode cluster sMessage =
     (let fx0 = [Logged DebugLevel ''BroadcastString''] in
      case sMessage of
        None \<Rightarrow> (Panic nil_dereference, cluster, fx0)
      | Some s \<Rightarrow>
          (let cMessage = \<lparr>NodeID = ID (Config cluster), Type = stringMessage,
                           Body = bytes_of_string s\<rparr>
           in case broadcastClusterMessage encode cluster (Some cMessage) of
                (err, cluster', fx) \<Rightarrow> (Return err, cluster', fx0 @ fx)))"

text \<open>
  \<open>BroadcastMessage\<close>; \<open>Bytes\<close> is the method of \<open>protocol.Message\<close>, a parameter as well.
\<close>

definition BroadcastMessage ::
  "(message \<Rightarrow> error + byte list) \<Rightarrow> ('pm \<Rightarrow> byte list) \<Rightarrow> 'pm Cluster \<Rightarrow> 'pm
     \<Rightarrow> error option \<times> 'pm Cluster \<times> 'pm effect list" where
  "BroadcastMessage encode Bytes cluster pMessage =
     (let fx0 = [Logged DebugLevel ''BroadcastMessage''];
          cMessage = \<lparr>NodeID = ID (Config cluster), Type = gubleMessage, Body = Bytes pMessage\<rparr>
      in case broadcastClusterMessage encode cluster (Some cMessage) of
           (err, cluster', fx) \<Rightarrow> (err, cluster', fx0 @ fx))"

text \<open>
  The goroutines a call started, run to their end: the effects of \<open>sendToNode\<close> for each
  \<open>Spawned\<close>, listed in the order of starting (the scheduler may interleave them in any
  other order), and the \<open>SendToTCP\<close> calls among a list of effects.
\<close>

fun run_goroutines :: "'pm Cluster \<Rightarrow> 'pm effect list \<Rightarrow> 'pm effect list" where
  "run_goroutines cluster [] = []"
| "run_goroutines cluster (Spawned node bs # fx) =
     sendToNode cluster node bs @ run_goroutines cluster fx"
| "run_goroutines cluster (e # fx) = run_goroutines cluster fx"

fun sends :: "'pm effect list \<Rightarrow> (Node \<times> byte list) list" where
  "sends [] = []"
| "sends (Sent node bs # fx) = (node, bs) # sends fx"
| "sends (e # fx) = sends fx"

definition send_attempts :: "'pm Cluster \<Rightarrow> 'pm effect list \<Rightarrow> (Node \<times> byte list) list" where
  "send_attempts cluster fx = sends fx @ sends (run_goroutines cluster fx)"

subsection \<open>memberlist.Delegate\<close>

text \<open>
  \<open>NotifyMsg\<close>; \<open>decode\<close> (not in the sources at hand) and \<open>protocol.ParseMessage\<close> are
  parameters. What \<open>HandleMessage\<close> returns is dropped; a panic of the handler is not caught.
\<close>

definition NotifyMsg ::
  "(byte list \<Rightarrow> error + message) \<Rightarrow> (byte list \<Rightarrow> error + 'pm) \<Rightarrow> 'pm Cluster \<Rightarrow> byte list
     \<Rightarrow> unit outcome \<times> 'pm Cluster \<times> 'pm effect list" where
  "NotifyMsg decode ParseMessage cluster msg =
     (let fx0 = [Logged DebugLevel ''NotifyMsg''] in
      case decode msg of
        Inl err \<Rightarrow>
          (Return (), cluster, fx0 @ [Logged ErrorLevel ''Decoding of cluster message failed''])
      | Inr cmsg \<Rightarrow>
          (let fx1 = fx0 @ [Logged DebugLevel ''NotifyMsg: Received cluster message''] in
           case MessageHandler cluster of
             None \<Rightarrow> (Return (), cluster, fx1)
           | Some handler \<Rightarrow>
               if Type cmsg = gubleMessage then
                 (case ParseMessage (Body cmsg) of
                    Inl err \<Rightarrow>
                      (Return (), cluster,
                       fx1 @ [Logged ErrorLevel
                         ''Parsing of guble-message contained in cluster-message failed''])
                  | Inr message \<Rightarrow>
                      (case handler message of
                         Return r \<Rightarrow> (Return (), cluster, fx1 @ [Handled message])
                       | Panic p \<Rightarrow> (Panic p, cluster, fx1 @ [Handled message])))
               else (Return (), cluster, fx1)))"

definition GetBroadcasts ::
  "'pm Cluster \<Rightarrow> go_int \<Rightarrow> go_int \<Rightarrow> byte list list \<times> 'pm Cluster \<times> 'pm effect list" where
  "GetBroadcasts cluster overhead limit =
     (let b = broadcasts cluster in (b, cluster\<lparr>broadcasts := []\<rparr>, []))"

definition NodeMeta :: "'pm Cluster \<Rightarrow> go_int \<Rightarrow> byte list \<times> 'pm Cluster \<times> 'pm effect list" where
  "NodeMeta cluster limit = ([], cluster, [])"

definition LocalState :: "'pm Cluster \<Rightarrow> bool \<Rightarrow> byte list \<times> 'pm Cluster \<times> 'pm effect list" where
  "LocalState cluster join = ([], cluster, [])"

definition MergeRemoteState ::
  "'pm Cluster \<Rightarrow> byte list \<Rightarrow> bool \<Rightarrow> unit \<times> 'pm Cluster \<times> 'pm effect list" where
  "MergeRemoteState cluster s join = ((), cluster, [])"

subsection \<open>memberlist.EventDelegate and memberlist.ConflictDelegate\<close>

text \<open>\<open>log\<close> reads \<open>*node\<close>; the node is a pointer, \<open>None\<close> is nil.\<close>

definition log :: "'pm Cluster \<Rightarrow> Node option \<Rightarrow> string
     \<Rightarrow> unit outcome \<times> 'pm Cluster \<times> 'pm effect list" where
  "log cluster node message =
     (case node of
        None \<Rightarrow> (Panic nil_dereference, cluster, [])
      | Some n \<Rightarrow> (Return (), cluster, [Logged DebugLevel message]))"

definition NotifyJoin ::
  "'pm Cluster \<Rightarrow> Node option \<Rightarrow> unit outcome \<times> 'pm Cluster \<times> 'pm effect list" where
  "NotifyJoin cluster node = log (cluster\<lparr>numJoins := numJoins cluster + 1\<rparr>) node ''Cluster Node Join''"

definition NotifyLeave ::
  "'pm Cluster \<Rightarrow> Node option \<Rightarrow> unit outcome \<times> 'pm Cluster \<times> 'pm effect list" where
  "NotifyLeave cluster node =
     log (cluster\<lparr>numLeaves := numLeaves cluster + 1\<rparr>) node ''Cluster Node Leave''"

definition NotifyUpdate ::
  "'pm Cluster \<Rightarrow> Node option \<Rightarrow> unit outcome \<times> 'pm Cluster \<times> 'pm effect list" where
  "NotifyUpdate cluster node =
     log (cluster\<lparr>numUpdates := numUpdates cluster + 1\<rparr>) node ''Cluster Node Update''"

text \<open>
  \<open>NotifyConflict\<close>: \<open>*existing\<close> and \<open>*other\<close> are read, then the entry is logged with
  \<open>Panic\<close>, which writes the line and panics with the message.
\<close>

definition NotifyConflict ::
  "'pm Cluster \<Rightarrow> Node option \<Rightarrow> Node option
     \<Rightarrow> unit outcome \<times> 'pm Cluster \<times> 'pm effect list" where
  "NotifyConflict cluster existing other =
     (case existing of
        None \<Rightarrow> (Panic nil_dereference, cluster, [])
      | Some existing_node \<Rightarrow>
          (case other of
             None \<Rightarrow> (Panic nil_dereference, cluster, [])
           | Some other_node \<Rightarrow>
               (Panic ''NotifyConflict'', cluster, [Logged PanicLevel ''NotifyConflict''])))"

subsection \<open>Reading a list of effects\<close>

text \<open>The messages handed to \<open>HandleMessage\<close>, and the address lists handed to \<open>Join\<close>.\<close>

fun handled :: "'pm effect list \<Rightarrow> 'pm list" where
  "handled [] = []"
| "handled (Handled m # fx) = m # handled fx"
| "handled (e # fx) = handled fx"

fun joins :: "'pm effect list \<Rightarrow> string list list" where
  "joins [] = []"
| "joins (Joined addrs # fx) = addrs # joins fx"
| "joins (e # fx) = joins fx"

subsection \<open>The codec of the envelope\<close>

text \<open>
  Modelled from the spec: \<open>encode\<close> and \<open>decode\<close> of the cluster message are not in the
  sources at hand. The spec asks for three fields on the wire, the integer sender node id, a
  one-byte kind, and a body of any length; \<open>encode\<close> succeeds on every envelope that can be
  built, and \<open>decode\<close> gives a \<open>DecodeError\<close> on empty, truncated or structurally invalid
  bytes. The spec leaves the layout open; here it is the kind byte, the eight bytes of the node
  id and the eight bytes of the length of the body, both in network order, then the body.
  \<open>decode\<close> refuses bytes that are shorter than this header, bytes whose length field is not
  the number of bytes that follow it, and a kind byte that stands for no kind. The length of a
  Go slice is below \<open>2 ^ 63\<close>; a body too long for the length field is refused by
  \<open>encode\<close>.
\<close>

definition kind_byte :: "messageType \<Rightarrow> byte" where
  "kind_byte t = (case t of gubleMessage \<Rightarrow> 0 | stringMessage \<Rightarrow> 1)"

definition int_bytes :: "go_int \<Rightarrow> byte list" where
  "int_bytes w = map (\<lambda>k. ucast (drop_bit (8 * k) w)) [7, 6, 5, 4, 3, 2, 1, 0]"

definition bytes_int :: "byte list \<Rightarrow> go_int" where
  "bytes_int bs = foldl (\<lambda>acc b. push_bit 8 acc OR ucast b) 0 bs"

definition DecodeError :: error where
  "DecodeError = external_error ''DecodeError''"

definition encode :: "message \<Rightarrow> error + byte list" where
  "encode e =
     (if length (Body e) < 2 ^ 64 then
        Inr (kind_byte (Type e) # int_bytes (NodeID e) @ int_bytes (of_nat (length (Body e)))
               @ Body e)
      else Inl (external_error ''body too long''))"

definition decode :: "byte list \<Rightarrow> error + message" where
  "decode bs =
     (case bs of
        [] \<Rightarrow> Inl DecodeError
      | k # rest \<Rightarrow>
          if length rest < 16 then Inl DecodeError
          else if unat (bytes_int (take 8 (drop 8 rest))) \<noteq> length (drop 16 rest) then
            Inl DecodeError
          else if k = 0 then
            Inr \<lparr>NodeID = bytes_int (take 8 rest), Type = gubleMessage, Body = drop 16 rest\<rparr>
          else if k = 1 then
            Inr \<lparr>NodeID = bytes_int (take 8 rest), Type = stringMessage, Body = drop 16 rest\<rparr>
          else Inl DecodeError)"

subsection \<open>A two-node cluster\<close>

text \<open>
  The setting of the integration test: node 1 on port 10000 and node 2 on port 10001, both
  with the remote \<open>0.0.0.0:10000\<close>. It is where the theorems below are tried out. The
  protocol message is stood for by its bytes, and the parser refuses the empty message.
\<close>

definition node1 :: Node where
  "node1 = \<lparr>Name = ''1'', Addr = [0, 0, 0, 0], Port_node = 10000\<rparr>"

definition node2 :: Node where
  "node2 = \<lparr>Name = ''2'', Addr = [0, 0, 0, 0], Port_node = 10001\<rparr>"

definition config1 :: Config where
  "config1 = \<lparr>ID = 1, Host = ''0.0.0.0'', Port = 10000,
               Remotes = [\<lparr>IP = ''0.0.0.0'', Port_tcp = 10000\<rparr>], HealthScoreThreshold = 1\<rparr>"

definition memberlist1 :: Memberlist where
  "memberlist1 = \<lparr>Members = [node1, node2], GetHealthScore = 0,
                   Join = (\<lambda>addrs. (1, None)), SendToTCP = (\<lambda>node bs. None), Shutdown = None\<rparr>"

definition lonely_memberlist :: Memberlist where
  "lonely_memberlist = \<lparr>Members = [node1], GetHealthScore = 2,
                   Join = (\<lambda>addrs. (0, None)), SendToTCP = (\<lambda>node bs. None), Shutdown = None\<rparr>"

definition parse_bytes :: "byte list \<Rightarrow> error + byte list" where
  "parse_bytes bs = (if bs = [] then Inl (external_error ''empty message'') else Inr bs)"

definition quiet_handler :: "byte list \<Rightarrow> error option outcome" where
  "quiet_handler m = Return None"

definition cluster1 :: "byte list Cluster" where
  "cluster1 = \<lparr>Config = config1, MessageHandler = Some quiet_handler, name = ''1'',
                memberlist = memberlist1, broadcasts = [],
                numJoins = 0, numLeaves = 0, numUpdates = 0\<rparr>"

section \<open>Properties\<close>

subsection \<open>Start and Check\<close>

text \<open>
  C3: \<open>Start\<close> on a cluster with no message handler returns the error "There should be a
  valid MessageHandler already set-up"; it leaves the cluster as it was, and the only effects
  are two log lines, so \<open>memberlist.Join\<close> is not called.
\<close>

theorem Start_missing_handler:
  assumes "MessageHandler cluster = None"
  shows "Start cluster =
           (Some (errors_New missing_handler), cluster,
            [Logged DebugLevel ''Starting Cluster'', Logged ErrorLevel missing_handler])
         \<and> joins (snd (snd (Start cluster))) = []"
  using assms by (simp add: Start_def)

theorem Start_missing_handler_witness:
  "MessageHandler (cluster1\<lparr>MessageHandler := None\<rparr>) = None
   \<and> fst (Start (cluster1\<lparr>MessageHandler := None\<rparr>)) = Some (errors_New missing_handler)
   \<and> fst (snd (Start (cluster1\<lparr>MessageHandler := None\<rparr>))) = cluster1\<lparr>MessageHandler := None\<rparr>
   \<and> joins (snd (snd (Start (cluster1\<lparr>MessageHandler := None\<rparr>)))) = []"
  using Start_missing_handler [of "cluster1\<lparr>MessageHandler := None\<rparr>"]
  by (simp add: cluster1_def)

lemma Start_result:
  assumes "Join (memberlist cluster) (remotesAsStrings cluster) = (num, err)"
  shows "fst (Start cluster) =
           (if MessageHandler cluster = None then Some (errors_New missing_handler)
            else case err of
                   Some e \<Rightarrow> Some e
                 | None \<Rightarrow> if num = 0 then Some (errors_New no_remote_contacted) else None)"
  using assms by (simp add: Start_def Let_def split: option.splits)

lemma count_not_zero:
  fixes num :: go_int
  assumes "0 \<le> sint num"
  shows "(num \<noteq> 0) = (1 \<le> sint num)"
proof -
  have "(sint num = 0) = (num = 0)"
    by (rule signed_eq_0_iff)
  with assms show ?thesis by arith
qed

text \<open>
  C4: when the handler is set and \<open>memberlist.Join\<close> gives no error and the count zero,
  \<open>Start\<close> returns the error "No remote hosts were successfuly contacted ..."; and \<open>Start\<close>
  returns nil exactly when the handler is set, \<open>Join\<close> gives no error and its count is not
  zero, which for a count that is not negative (\<open>Join\<close> counts the hosts it reached) means
  at least one.
\<close>

theorem Start_join:
  assumes "Join (memberlist cluster) (remotesAsStrings cluster) = (num, err)"
  shows "(MessageHandler cluster \<noteq> None \<and> err = None \<and> num = 0
            \<longrightarrow> fst (Start cluster) = Some (errors_New no_remote_contacted))
         \<and> (fst (Start cluster) = None
              \<longleftrightarrow> MessageHandler cluster \<noteq> None \<and> err = None \<and> num \<noteq> 0)
         \<and> (0 \<le> sint num
              \<longrightarrow> (fst (Start cluster) = None
                    \<longleftrightarrow> MessageHandler cluster \<noteq> None \<and> err = None \<and> 1 \<le> sint num))"
proof -
  have r: "fst (Start cluster) = None
             \<longleftrightarrow> MessageHandler cluster \<noteq> None \<and> err = None \<and> num \<noteq> 0"
    by (simp add: Start_result [OF assms] split: option.splits)
  have z: "MessageHandler cluster \<noteq> None \<and> err = None \<and> num = 0
             \<longrightarrow> fst (Start cluster) = Some (errors_New no_remote_contacted)"
    by (simp add: Start_result [OF assms])
  from r z show ?thesis
    by (simp add: count_not_zero)
qed

theorem Start_join_witness:
  "Join (memberlist (cluster1\<lparr>memberlist := lonely_memberlist\<rparr>))
        (remotesAsStrings (cluster1\<lparr>memberlist := lonely_memberlist\<rparr>)) = (0, None)
   \<and> MessageHandler (cluster1\<lparr>memberlist := lonely_memberlist\<rparr>) \<noteq> None
   \<and> fst (Start (cluster1\<lparr>memberlist := lonely_memberlist\<rparr>))
       = Some (errors_New no_remote_contacted)
   \<and> Join (memberlist cluster1) (remotesAsStrings cluster1) = (1, None)
   \<and> (0::int) \<le> sint (1 :: go_int) \<and> (1::int) \<le> sint (1 :: go_int)
   \<and> fst (Start cluster1) = None"
proof -
  have j0: "Join (memberlist (cluster1\<lparr>memberlist := lonely_memberlist\<rparr>))
        (remotesAsStrings (cluster1\<lparr>memberlist := lonely_memberlist\<rparr>)) = (0, None)"
    by (simp add: lonely_memberlist_def)
  have j1: "Join (memberlist cluster1) (remotesAsStrings cluster1) = (1, None)"
    by (simp add: cluster1_def memberlist1_def)
  have h: "MessageHandler cluster1 \<noteq> None"
    by (simp add: cluster1_def)
  show ?thesis
    using Start_join [OF j0] Start_join [OF j1] j0 j1 h by simp
qed

text \<open>
  C5: \<open>Check\<close> returns nil exactly when the health score that memberlist reports is at most
  \<open>Config.HealthScoreThreshold\<close> (a score equal to the threshold is healthy), it returns
  the error "Cluster Health Score is not perfect" otherwise, and it leaves the cluster as it
  was.
\<close>

theorem Check_threshold:
  "(fst (Check cluster) = None
      \<longleftrightarrow> sint (GetHealthScore (memberlist cluster))
            \<le> sint (HealthScoreThreshold (Config cluster)))
   \<and> fst (Check cluster) =
       (if sint (GetHealthScore (memberlist cluster))
             \<le> sint (HealthScoreThreshold (Config cluster))
        then None else Some (errors_New health_not_perfect))
   \<and> (GetHealthScore (memberlist cluster) = HealthScoreThreshold (Config cluster)
        \<longrightarrow> fst (Check cluster) = None)
   \<and> fst (snd (Check cluster)) = cluster"
  by (simp add: Check_def Let_def)

theorem Check_threshold_witness:
  "GetHealthScore (memberlist (cluster1\<lparr>memberlist := memberlist1\<lparr>GetHealthScore := 1\<rparr>\<rparr>))
     = HealthScoreThreshold (Config (cluster1\<lparr>memberlist := memberlist1\<lparr>GetHealthScore := 1\<rparr>\<rparr>))
   \<and> fst (Check (cluster1\<lparr>memberlist := memberlist1\<lparr>GetHealthScore := 1\<rparr>\<rparr>)) = None"
  using Check_threshold [of "cluster1\<lparr>memberlist := memberlist1\<lparr>GetHealthScore := 1\<rparr>\<rparr>"]
  by (simp add: cluster1_def config1_def)

subsection \<open>Messages that arrive\<close>

text \<open>
  C2: when the bytes decode to an envelope, a \<open>stringMessage\<close> envelope is never handed to
  the handler; a \<open>gubleMessage\<close> envelope whose body parses is handed to the registered
  handler once, as the parsed message.
\<close>

theorem NotifyMsg_dispatch:
  assumes "dec msg = Inr cmsg"
  shows "(Type cmsg = stringMessage
            \<longrightarrow> handled (snd (snd (NotifyMsg dec parse cluster msg))) = [])
         \<and> (Type cmsg = gubleMessage \<and> parse (Body cmsg) = Inr pm
              \<and> MessageHandler cluster = Some handler
            \<longrightarrow> handled (snd (snd (NotifyMsg dec parse cluster msg))) = [pm])"
  using assms
  by (simp add: NotifyMsg_def Let_def split: option.splits sum.splits outcome.splits)

text \<open>
  C6: when \<open>decode\<close> gives an error, \<open>NotifyMsg\<close> returns, the cluster is as it was, and the
  only effects are two log lines: the handler is not called.
\<close>

theorem NotifyMsg_decode_error:
  assumes "dec msg = Inl err"
  shows "NotifyMsg dec parse cluster msg =
           (Return (), cluster,
            [Logged DebugLevel ''NotifyMsg'',
             Logged ErrorLevel ''Decoding of cluster message failed''])
         \<and> handled (snd (snd (NotifyMsg dec parse cluster msg))) = []"
  using assms by (simp add: NotifyMsg_def)

text \<open>
  C10: with no handler set, \<open>NotifyMsg\<close> returns for every input, the cluster is as it was,
  and no message is handed to any handler, also for bytes that decode to a \<open>gubleMessage\<close>
  envelope with a body that would parse.
\<close>

theorem NotifyMsg_no_handler:
  assumes "MessageHandler cluster = None"
  shows "fst (NotifyMsg dec parse cluster msg) = Return ()
         \<and> fst (snd (NotifyMsg dec parse cluster msg)) = cluster
         \<and> handled (snd (snd (NotifyMsg dec parse cluster msg))) = []"
  using assms by (simp add: NotifyMsg_def Let_def split: sum.splits)

subsection \<open>Conflicts\<close>

text \<open>
  C8: \<open>NotifyConflict\<close> never returns: for every pair of nodes it panics, after the log
  line at panic level; on a nil node pointer it panics at the dereference.
\<close>

theorem NotifyConflict_panics:
  "(\<exists>p. fst (NotifyConflict cluster existing other) = Panic p)
   \<and> NotifyConflict cluster (Some n1) (Some n2) =
       (Panic ''NotifyConflict'', cluster, [Logged PanicLevel ''NotifyConflict''])"
  by (simp add: NotifyConflict_def split: option.splits)

subsection \<open>The properties of arriving messages at the two-node cluster\<close>

theorem NotifyMsg_dispatch_witness:
  "decode [1, 0, 0, 0, 0, 0, 0, 0, 2, 0, 0, 0, 0, 0, 0, 0, 2, 104, 105]
     = Inr \<lparr>NodeID = 2, Type = stringMessage, Body = [104, 105]\<rparr>
   \<and> handled (snd (snd (NotifyMsg decode parse_bytes cluster1
                           [1, 0, 0, 0, 0, 0, 0, 0, 2, 0, 0, 0, 0, 0, 0, 0, 2, 104, 105]))) = []
   \<and> decode [0, 0, 0, 0, 0, 0, 0, 0, 2, 0, 0, 0, 0, 0, 0, 0, 2, 104, 105]
     = Inr \<lparr>NodeID = 2, Type = gubleMessage, Body = [104, 105]\<rparr>
   \<and> parse_bytes [104, 105] = Inr [104, 105]
   \<and> MessageHandler cluster1 = Some quiet_handler
   \<and> handled (snd (snd (NotifyMsg decode parse_bytes cluster1
                           [0, 0, 0, 0, 0, 0, 0, 0, 2, 0, 0, 0, 0, 0, 0, 0, 2, 104, 105]))) = [[104, 105]]"
proof -
  have d1: "decode [1, 0, 0, 0, 0, 0, 0, 0, 2, 0, 0, 0, 0, 0, 0, 0, 2, 104, 105]
              = Inr \<lparr>NodeID = 2, Type = stringMessage, Body = [104, 105]\<rparr>"
    by code_simp
  have d0: "decode [0, 0, 0, 0, 0, 0, 0, 0, 2, 0, 0, 0, 0, 0, 0, 0, 2, 104, 105]
              = Inr \<lparr>NodeID = 2, Type = gubleMessage, Body = [104, 105]\<rparr>"
    by code_simp
  have p: "parse_bytes [104, 105] = Inr [104, 105]"
    by (simp add: parse_bytes_def)
  have h: "MessageHandler cluster1 = Some quiet_handler"
    by (simp add: cluster1_def)
  show ?thesis
    using NotifyMsg_dispatch [where dec = decode and parse = parse_bytes and cluster = cluster1
            and msg = "[1, 0, 0, 0, 0, 0, 0, 0, 2, 0, 0, 0, 0, 0, 0, 0, 2, 104, 105]", OF d1]
          NotifyMsg_dispatch [where dec = decode and parse = parse_bytes and cluster = cluster1
            and msg = "[0, 0, 0, 0, 0, 0, 0, 0, 2, 0, 0, 0, 0, 0, 0, 0, 2, 104, 105]" and pm = "[104, 105]"
            and handler = quiet_handler, OF d0]
          d1 d0 p h
    by simp
qed

theorem NotifyMsg_decode_error_witness:
  "decode [] = Inl DecodeError
   \<and> decode [0, 0, 0, 1] = Inl DecodeError
   \<and> NotifyMsg decode parse_bytes cluster1 [0, 0, 0, 1] =
       (Return (), cluster1,
        [Logged DebugLevel ''NotifyMsg'',
         Logged ErrorLevel ''Decoding of cluster message failed''])
   \<and> handled (snd (snd (NotifyMsg decode parse_bytes cluster1 []))) = []"
proof -
  have e: "decode [] = Inl DecodeError"
    by (simp add: decode_def)
  have t: "decode [0, 0, 0, 1] = Inl DecodeError"
    by (simp add: decode_def)
  show ?thesis
    using NotifyMsg_decode_error [where dec = decode and msg = "[]" and parse = parse_bytes
            and cluster = cluster1, OF e]
          NotifyMsg_decode_error [where dec = decode and msg = "[0, 0, 0, 1]"
            and parse = parse_bytes and cluster = cluster1, OF t] e t
    by simp
qed

theorem NotifyMsg_no_handler_witness:
  "MessageHandler (cluster1\<lparr>MessageHandler := None\<rparr>) = None
   \<and> decode [0, 0, 0, 0, 0, 0, 0, 0, 2, 0, 0, 0, 0, 0, 0, 0, 2, 104, 105]
       = Inr \<lparr>NodeID = 2, Type = gubleMessage, Body = [104, 105]\<rparr>
   \<and> parse_bytes [104, 105] = Inr [104, 105]
   \<and> fst (NotifyMsg decode parse_bytes (cluster1\<lparr>MessageHandler := None\<rparr>)
            [0, 0, 0, 0, 0, 0, 0, 0, 2, 0, 0, 0, 0, 0, 0, 0, 2, 104, 105]) = Return ()
   \<and> handled (snd (snd (NotifyMsg decode parse_bytes (cluster1\<lparr>MessageHandler := None\<rparr>)
            [0, 0, 0, 0, 0, 0, 0, 0, 2, 0, 0, 0, 0, 0, 0, 0, 2, 104, 105]))) = []"
proof -
  have n: "MessageHandler (cluster1\<lparr>MessageHandler := None\<rparr>) = None"
    by simp
  have d0: "decode [0, 0, 0, 0, 0, 0, 0, 0, 2, 0, 0, 0, 0, 0, 0, 0, 2, 104, 105]
              = Inr \<lparr>NodeID = 2, Type = gubleMessage, Body = [104, 105]\<rparr>"
    by code_simp
  have p: "parse_bytes [104, 105] = Inr [104, 105]"
    by (simp add: parse_bytes_def)
  show ?thesis
    using NotifyMsg_no_handler [OF n, of decode parse_bytes "[0, 0, 0, 0, 0, 0, 0, 0, 2, 0, 0, 0, 0, 0, 0, 0, 2, 104, 105]"]
          n d0 p
    by simp
qed

subsection \<open>Broadcast\<close>

lemma sends_broadcast_loop: "sends (broadcast_loop nm nodes bs) = []"
  by (induction nodes) auto

lemma sends_sendToNode: "sends (sendToNode cluster node bs) = [(node, bs)]"
  by (simp add: sendToNode_def split: option.splits)

lemma sends_append: "sends (fx @ fx') = sends fx @ sends fx'"
  by (induction fx rule: sends.induct) simp_all

lemma attempts_broadcast_loop:
  "sends (run_goroutines cluster (broadcast_loop nm nodes bs)) =
     map (\<lambda>node. (node, bs)) (filter (\<lambda>node. Name node \<noteq> nm) nodes)"
  by (induction nodes) (auto simp: sends_append sends_sendToNode)

lemma attempts_broadcastClusterMessage:
  "send_attempts cluster (snd (snd (broadcastClusterMessage enc cluster (Some m)))) =
     (case enc m of
        Inl err \<Rightarrow> []
      | Inr bs \<Rightarrow>
          map (\<lambda>node. (node, bs))
            (filter (\<lambda>node. Name node \<noteq> name cluster) (Members (memberlist cluster))))"
  by (simp add: broadcastClusterMessage_def send_attempts_def sends_broadcast_loop
        attempts_broadcast_loop split: sum.splits)

lemma attempts_BroadcastString:
  "send_attempts cluster (snd (snd (BroadcastString enc cluster (Some s)))) =
     (case enc \<lparr>NodeID = ID (Config cluster), Type = stringMessage, Body = bytes_of_string s\<rparr> of
        Inl err \<Rightarrow> []
      | Inr bs \<Rightarrow>
          map (\<lambda>node. (node, bs))
            (filter (\<lambda>node. Name node \<noteq> name cluster) (Members (memberlist cluster))))"
proof -
  let ?m = "\<lparr>NodeID = ID (Config cluster), Type = stringMessage, Body = bytes_of_string s\<rparr>"
  obtain err c' fx where b: "broadcastClusterMessage enc cluster (Some ?m) = (err, c', fx)"
    by (cases "broadcastClusterMessage enc cluster (Some ?m)") auto
  have "send_attempts cluster (snd (snd (BroadcastString enc cluster (Some s)))) =
          send_attempts cluster fx"
    by (simp add: BroadcastString_def Let_def b send_attempts_def)
  also have "\<dots> = send_attempts cluster (snd (snd (broadcastClusterMessage enc cluster (Some ?m))))"
    by (simp add: b)
  finally show ?thesis
    by (simp only: attempts_broadcastClusterMessage)
qed

lemma attempts_BroadcastMessage:
  "send_attempts cluster (snd (snd (BroadcastMessage enc Bytes cluster pMessage))) =
     (case enc \<lparr>NodeID = ID (Config cluster), Type = gubleMessage, Body = Bytes pMessage\<rparr> of
        Inl err \<Rightarrow> []
      | Inr bs \<Rightarrow>
          map (\<lambda>node. (node, bs))
            (filter (\<lambda>node. Name node \<noteq> name cluster) (Members (memberlist cluster))))"
proof -
  let ?m = "\<lparr>NodeID = ID (Config cluster), Type = gubleMessage, Body = Bytes pMessage\<rparr>"
  obtain err c' fx where b: "broadcastClusterMessage enc cluster (Some ?m) = (err, c', fx)"
    by (cases "broadcastClusterMessage enc cluster (Some ?m)") auto
  have "send_attempts cluster (snd (snd (BroadcastMessage enc Bytes cluster pMessage))) =
          send_attempts cluster fx"
    by (simp add: BroadcastMessage_def Let_def b send_attempts_def)
  also have "\<dots> = send_attempts cluster (snd (snd (broadcastClusterMessage enc cluster (Some ?m))))"
    by (simp add: b)
  finally show ?thesis
    by (simp only: attempts_broadcastClusterMessage)
qed




text \<open>
  C9: what \<open>BroadcastString\<close> returns and sends is what \<open>encode\<close> makes of the envelope
  with \<open>NodeID = Config.ID\<close>, \<open>Type = stringMessage\<close> and the bytes of the string as body:
  its error is returned, its bytes are the bytes of every send attempt. The same holds for
  \<open>BroadcastMessage\<close> and the envelope with \<open>NodeID = Config.ID\<close>, \<open>Type = gubleMessage\<close>
  and the bytes of the message as body.
\<close>

theorem broadcast_envelope:
  "(case enc \<lparr>NodeID = ID (Config cluster), Type = stringMessage, Body = bytes_of_string s\<rparr> of
      Inl err \<Rightarrow>
        fst (BroadcastString enc cluster (Some s)) = Return (Some err)
        \<and> send_attempts cluster (snd (snd (BroadcastString enc cluster (Some s)))) = []
    | Inr bytes \<Rightarrow>
        fst (BroadcastString enc cluster (Some s)) = Return None
        \<and> snd ` set (send_attempts cluster (snd (snd (BroadcastString enc cluster (Some s)))))
            \<subseteq> {bytes})
   \<and> (case enc \<lparr>NodeID = ID (Config cluster), Type = gubleMessage, Body = Bytes pMessage\<rparr> of
      Inl err \<Rightarrow>
        fst (BroadcastMessage enc Bytes cluster pMessage) = Some err
        \<and> send_attempts cluster (snd (snd (BroadcastMessage enc Bytes cluster pMessage))) = []
    | Inr bytes \<Rightarrow>
        fst (BroadcastMessage enc Bytes cluster pMessage) = None
        \<and> snd ` set (send_attempts cluster
                       (snd (snd (BroadcastMessage enc Bytes cluster pMessage))))
            \<subseteq> {bytes})"
proof -
  have s: "fst (BroadcastString enc cluster (Some s)) =
             (case enc \<lparr>NodeID = ID (Config cluster), Type = stringMessage,
                        Body = bytes_of_string s\<rparr> of
                Inl err \<Rightarrow> Return (Some err) | Inr bytes \<Rightarrow> Return None)"
    by (simp add: BroadcastString_def broadcastClusterMessage_def Let_def split: sum.splits)
  have m: "fst (BroadcastMessage enc Bytes cluster pMessage) =
             (case enc \<lparr>NodeID = ID (Config cluster), Type = gubleMessage,
                        Body = Bytes pMessage\<rparr> of
                Inl err \<Rightarrow> Some err | Inr bytes \<Rightarrow> None)"
    by (simp add: BroadcastMessage_def broadcastClusterMessage_def Let_def split: sum.splits)
  show ?thesis
    by (auto simp: s m attempts_BroadcastString attempts_BroadcastMessage split: sum.splits)
qed

subsection \<open>The codec\<close>

lemma length_int_bytes: "length (int_bytes w) = 8"
  by (simp add: int_bytes_def)

lemma byte_step:
  fixes w :: go_int
  shows "push_bit 8 (drop_bit (k + 8) w) OR ucast (ucast (drop_bit k w) :: byte) = drop_bit k w"
proof (rule bit_word_eqI)
  fix n
  assume "n < LENGTH(64)"
  then have n64: "n < 64" by simp
  show "bit (push_bit 8 (drop_bit (k + 8) w) OR ucast (ucast (drop_bit k w) :: byte)) n
          = bit (drop_bit k w) n"
  proof (cases "n < 8")
    case True
    with n64 show ?thesis by (simp add: bit_simps)
  next
    case False
    then have e: "n - 8 + (k + 8) = k + n" by simp
    from False n64 show ?thesis by (simp add: bit_simps e)
  qed
qed

lemma drop_bit_64: "drop_bit 64 (w :: go_int) = 0"
  by (rule bit_word_eqI) (simp add: bit_simps)

lemma bytes_int_int_bytes: "bytes_int (int_bytes w) = w"
proof -
  have "bytes_int (int_bytes w) =
          push_bit 8 (push_bit 8 (push_bit 8 (push_bit 8 (push_bit 8 (push_bit 8 (push_bit 8
            (push_bit 8 (drop_bit 64 w) OR ucast (ucast (drop_bit 56 w) :: byte))
             OR ucast (ucast (drop_bit 48 w) :: byte))
             OR ucast (ucast (drop_bit 40 w) :: byte))
             OR ucast (ucast (drop_bit 32 w) :: byte))
             OR ucast (ucast (drop_bit 24 w) :: byte))
             OR ucast (ucast (drop_bit 16 w) :: byte))
             OR ucast (ucast (drop_bit 8 w) :: byte))
             OR ucast (ucast (drop_bit 0 w) :: byte)"
    by (simp add: bytes_int_def int_bytes_def drop_bit_64)
  also have "\<dots> = drop_bit 0 w"
    using byte_step [of 56 w] byte_step [of 48 w] byte_step [of 40 w] byte_step [of 32 w]
      byte_step [of 24 w] byte_step [of 16 w] byte_step [of 8 w] byte_step [of 0 w]
    by simp
  finally show ?thesis by simp
qed

lemma unat_length:
  assumes "n < 2 ^ 64"
  shows "unat (of_nat n :: go_int) = n"
  using assms by (simp add: unat_of_nat)

lemma decode_short:
  assumes "length rest < 16"
  shows "decode (k # rest) = Inl DecodeError"
  using assms by (simp add: decode_def)

lemma decode_length_mismatch:
  assumes "unat (bytes_int (take 8 (drop 8 rest))) \<noteq> length (drop 16 rest)"
  shows "decode (k # rest) = Inl DecodeError"
  using assms by (simp add: decode_def)

text \<open>Every proper prefix of an encoding, the empty one too, is refused.\<close>

lemma decode_truncated:
  assumes "encode e = Inr bs" and "n < length bs"
  shows "decode (take n bs) = Inl DecodeError"
proof -
  let ?rest = "int_bytes (NodeID e) @ int_bytes (of_nat (length (Body e))) @ Body e"
  from assms(1) have len: "length (Body e) < 2 ^ 64"
    by (simp add: encode_def split: if_splits)
  from assms(1) len have bs: "bs = kind_byte (Type e) # ?rest"
    by (simp add: encode_def)
  show ?thesis
  proof (cases n)
    case 0
    then show ?thesis by (simp add: decode_def)
  next
    case (Suc m)
    with assms(2) bs have m: "m < 16 + length (Body e)"
      by (simp add: length_int_bytes)
    from Suc bs have t: "take n bs = kind_byte (Type e) # take m ?rest"
      by simp
    show ?thesis
    proof (cases "m < 16")
      case True
      then have "length (take m ?rest) < 16" by simp
      then show ?thesis
        unfolding t by (rule decode_short)
    next
      case False
      then have r: "take m ?rest =
          int_bytes (NodeID e) @ int_bytes (of_nat (length (Body e))) @ take (m - 16) (Body e)"
        by (simp add: length_int_bytes)
      have l: "take 8 (drop 8 (take m ?rest)) = int_bytes (of_nat (length (Body e)))"
        unfolding r by (simp add: length_int_bytes)
      have d: "length (drop 16 (take m ?rest)) = m - 16"
        unfolding r using m by (simp add: length_int_bytes)
      from False m have "length (Body e) \<noteq> m - 16" by simp
      then have "unat (bytes_int (take 8 (drop 8 (take m ?rest))))
                   \<noteq> length (drop 16 (take m ?rest))"
        unfolding l d by (simp add: bytes_int_int_bytes unat_length [OF len])
      then show ?thesis
        unfolding t by (rule decode_length_mismatch)
    qed
  qed
qed

text \<open>
  C7: for every envelope whose body fits the length field (as the body of every envelope
  that can be built does, a Go slice being shorter than \<open>2 ^ 63\<close>), \<open>encode\<close> gives bytes,
  and \<open>decode\<close> of these bytes gives the envelope back.
\<close>

theorem decode_encode:
  assumes "length (Body e) < 2 ^ 64"
  shows "\<exists>bs. encode e = Inr bs \<and> decode bs = Inr e"
  using assms
  by (cases e, cases "Type e")
     (simp_all add: encode_def decode_def kind_byte_def length_int_bytes bytes_int_int_bytes
        unat_length)

theorem decode_encode_witness:
  "length (Body \<lparr>NodeID = 2, Type = gubleMessage, Body = [104, 105]\<rparr>) < 2 ^ 64
   \<and> encode \<lparr>NodeID = 2, Type = gubleMessage, Body = [104, 105]\<rparr>
       = Inr [0, 0, 0, 0, 0, 0, 0, 0, 2, 0, 0, 0, 0, 0, 0, 0, 2, 104, 105]
   \<and> decode [0, 0, 0, 0, 0, 0, 0, 0, 2, 0, 0, 0, 0, 0, 0, 0, 2, 104, 105]
       = Inr \<lparr>NodeID = 2, Type = gubleMessage, Body = [104, 105]\<rparr>
   \<and> decode [0, 0, 0, 0, 0, 0, 0, 0, 2, 0, 0, 0, 0, 0, 0, 0, 2, 104] = Inl DecodeError"
proof -
  have l: "length (Body \<lparr>NodeID = 2, Type = gubleMessage, Body = [104, 105]\<rparr>) < 2 ^ 64"
    by simp
  have t: "decode [0, 0, 0, 0, 0, 0, 0, 0, 2, 0, 0, 0, 0, 0, 0, 0, 2, 104] = Inl DecodeError"
    by code_simp
  have es: "encode \<lparr>NodeID = 2, Type = gubleMessage, Body = [104, 105]\<rparr>
              = Inr [0, 0, 0, 0, 0, 0, 0, 0, 2, 0, 0, 0, 0, 0, 0, 0, 2, 104, 105]"
    by (simp add: encode_def kind_byte_def int_bytes_def)
  show ?thesis
    using decode_encode [OF l] l es t by simp
qed

subsection \<open>The properties of broadcast at the two-node cluster\<close>


theorem broadcast_envelope_witness:
  "encode \<lparr>NodeID = ID (Config cluster1), Type = stringMessage, Body = bytes_of_string ''hi''\<rparr>
     = Inr [1, 0, 0, 0, 0, 0, 0, 0, 1, 0, 0, 0, 0, 0, 0, 0, 2, 104, 105]
   \<and> fst (BroadcastString encode cluster1 (Some ''hi'')) = Return None
   \<and> snd ` set (send_attempts cluster1 (snd (snd (BroadcastString encode cluster1 (Some ''hi'')))))
       \<subseteq> {[1, 0, 0, 0, 0, 0, 0, 0, 1, 0, 0, 0, 0, 0, 0, 0, 2, 104, 105]}
   \<and> encode \<lparr>NodeID = ID (Config cluster1), Type = gubleMessage, Body = id [104, 105]\<rparr>
       = Inr [0, 0, 0, 0, 0, 0, 0, 0, 1, 0, 0, 0, 0, 0, 0, 0, 2, 104, 105]
   \<and> fst (BroadcastMessage encode id cluster1 [104, 105]) = None
   \<and> snd ` set (send_attempts cluster1 (snd (snd (BroadcastMessage encode id cluster1 [104, 105]))))
       \<subseteq> {[0, 0, 0, 0, 0, 0, 0, 0, 1, 0, 0, 0, 0, 0, 0, 0, 2, 104, 105]}"
proof -
  have es: "encode \<lparr>NodeID = ID (Config cluster1), Type = stringMessage,
                     Body = bytes_of_string ''hi''\<rparr>
              = Inr [1, 0, 0, 0, 0, 0, 0, 0, 1, 0, 0, 0, 0, 0, 0, 0, 2, 104, 105]"
    by (simp add: encode_def kind_byte_def int_bytes_def cluster1_def config1_def
          bytes_of_string_def)
  have em: "encode \<lparr>NodeID = ID (Config cluster1), Type = gubleMessage, Body = id [104, 105]\<rparr>
              = Inr [0, 0, 0, 0, 0, 0, 0, 0, 1, 0, 0, 0, 0, 0, 0, 0, 2, 104, 105]"
    by (simp add: encode_def kind_byte_def int_bytes_def cluster1_def config1_def)
  show ?thesis
    using broadcast_envelope [where enc = encode and Bytes = id and cluster = cluster1
            and s = "''hi''" and pMessage = "[104, 105]"]
    by (simp only: es em sum.case simp_thms)
qed

end
